theory Spec2Isabelle
  imports Main "HOL-Library.Sublist"
begin

section \<open>Python strings\<close>

text \<open>
  A Python \<open>str\<close> is a sequence of Unicode code points, so it is modelled as a list of
  natural numbers. \<open>lit\<close> embeds an ASCII literal; characters beyond ASCII are written as
  their code point (the arrow U+2192 is 8594, the right single quotation mark U+2019 is
  8217, the newspaper emoji U+1F4F0 is 128240).
\<close>

type_synonym pystr = "nat list"

abbreviation (input) lit :: "string \<Rightarrow> pystr" where
  "lit s \<equiv> map of_char s"

text \<open>
  \<open>str.isspace\<close> as CPython decides it for one code point: U+0009..U+000D,
  U+001C..U+0020, U+0085, U+00A0, U+1680, U+2000..U+200A, U+2028, U+2029, U+202F,
  U+205F and U+3000. \<open>str.strip()\<close> without argument removes these from both ends.
\<close>

definition py_isspace :: "nat \<Rightarrow> bool" where
  "py_isspace c =
     ((9 \<le> c \<and> c \<le> 13) \<or> (28 \<le> c \<and> c \<le> 32) \<or> c = 133 \<or> c = 160 \<or> c = 5760 \<or>
      (8192 \<le> c \<and> c \<le> 8202) \<or> c = 8232 \<or> c = 8233 \<or> c = 8239 \<or> c = 8287 \<or> c = 12288)"

definition py_strip :: "pystr \<Rightarrow> pystr" where
  "py_strip s = rev (dropWhile py_isspace (rev (dropWhile py_isspace s)))"

text \<open>
  \<open>str.lower()\<close> on Basic Latin and Latin-1: A..Z and U+00C0..U+00DE (without the
  multiplication sign U+00D7) move up by 32. Code points beyond U+00FF are left as they
  are in this model; Python lower-cases no string that holds one of them to a news
  label, so the comparison with the labels is the same.
\<close>

definition py_lower_cp :: "nat \<Rightarrow> nat" where
  "py_lower_cp c =
     (if (65 \<le> c \<and> c \<le> 90) \<or> (192 \<le> c \<and> c \<le> 222 \<and> c \<noteq> 215) then c + 32 else c)"

definition py_lower :: "pystr \<Rightarrow> pystr" where
  "py_lower s = map py_lower_cp s"

text \<open>\<open>sep.join(xs)\<close>.\<close>

fun py_join :: "pystr \<Rightarrow> pystr list \<Rightarrow> pystr" where
  "py_join sep [] = []"
| "py_join sep [x] = x"
| "py_join sep (x # y # ys) = x @ sep @ py_join sep (y # ys)"

text \<open>\<open>str(n)\<close> for a Python \<open>int\<close>, as an f-string inserts it.\<close>

fun str_nat :: "nat \<Rightarrow> pystr" where
  "str_nat n = (if n < 10 then [48 + n] else str_nat (n div 10) @ [48 + n mod 10])"

definition str_int :: "int \<Rightarrow> pystr" where
  "str_int i = (if i < 0 then 45 # str_nat (nat (- i)) else str_nat (nat i))"

text \<open>The slice \<open>xs[-n:]\<close> for a positive literal \<open>n\<close>: the last \<open>n\<close> elements, or all.\<close>

definition last_n :: "nat \<Rightarrow> 'a list \<Rightarrow> 'a list" where
  "last_n n xs = drop (length xs - n) xs"

section \<open>Messages, providers and the call log\<close>

text \<open>
  A message is the dictionary \<open>{"role": ..., "content": ...}\<close>. The session history is
  a list of messages; the turn model covers histories whose items are such dictionaries
  with string values, which are the only items this program creates.
\<close>

record message =
  role :: pystr
  content :: pystr

definition user_msg :: "pystr \<Rightarrow> message" where
  "user_msg text = \<lparr>role = lit ''user'', content = text\<rparr>"

definition system_msg :: "pystr \<Rightarrow> message" where
  "system_msg text = \<lparr>role = lit ''system'', content = text\<rparr>"

definition assistant_msg :: "pystr \<Rightarrow> message" where
  "assistant_msg text = \<lparr>role = lit ''assistant'', content = text\<rparr>"

text \<open>
  Exceptions that leave a handler. \<open>Completion_error\<close> is any exception of the
  completion provider (none is caught in the turn). The archive handling raises
  \<open>KeyError\<close>, \<open>IndexError\<close>, \<open>TypeError\<close> and \<open>AttributeError\<close> when the stored
  document has an unexpected shape; opening, reading and writing the file raise
  \<open>UnicodeDecodeError\<close>, \<open>RecursionError\<close>, \<open>ValueError\<close> and \<open>OSError\<close>.
\<close>

datatype exn = Completion_error pystr | Key_error | Index_error | Type_error | Attribute_error
  | Unicode_decode_error | Recursion_error | Value_error | Os_error

text \<open>
  The two source files: \<open>chat.py\<close> calls \<open>Runner.run_sync\<close> with a fresh agent,
  \<open>chatbot/chatlit.py\<close> calls \<open>litellm.completion\<close>.
\<close>

datatype variant = Chat | Chatlit

text \<open>The four places of the source that call the completion provider.\<close>

datatype site = Summarize_history | Summarize_news | Classify | General_answer

datatype request =
    Run_sync (agent_name: pystr) (instructions: pystr) (input: "message list")
  | Litellm_completion (model: pystr) (messages: "message list")

text \<open>
  The reply of the news provider to \<open>requests.get(url)\<close>, at the level of the
  provider's documented JSON: an exception of the transport (with its text \<open>str(e)\<close>),
  or a response with a status code and a body. A body is \<open>Rejected\<close> when reading it
  raises, because \<open>response.json()\<close> fails or the decoded value is not an object of
  the documented shape (with the text \<open>str(e)\<close> of that exception). Otherwise it is
  an object with an optional \<open>message\<close> string and an optional \<open>articles\<close> list,
  each article with or without a \<open>title\<close> string.
\<close>

type_synonym article = "pystr option"

datatype body = Rejected pystr | Json_object "pystr option" "article list option"

datatype http_result = Get_raised pystr | Response int body

text \<open>
  External calls are logged in order. The environment answers the k-th call (k calls
  were made before it) from the request, so two identical requests of one turn may get
  different answers.
\<close>

datatype call = Llm site request | Requests_get pystr

record env =
  news_api_key :: pystr
  llm_reply :: "nat \<Rightarrow> request \<Rightarrow> exn + pystr"
  http_reply :: "nat \<Rightarrow> pystr \<Rightarrow> http_result"

type_synonym 'a io = "call list \<Rightarrow> (exn + 'a) \<times> call list"

definition io_return :: "'a \<Rightarrow> 'a io" where
  "io_return x log = (Inr x, log)"

definition io_bind :: "'a io \<Rightarrow> ('a \<Rightarrow> 'b io) \<Rightarrow> 'b io" where
  "io_bind m f log = (case m log of (Inl e, log') \<Rightarrow> (Inl e, log') | (Inr x, log') \<Rightarrow> f x log')"

fun agent_of :: "site \<Rightarrow> pystr \<times> pystr" where
  "agent_of Summarize_history = (lit ''Summarizer'', lit ''Summarize conversation history'')"
| "agent_of Summarize_news = (lit ''Summarizer'', lit ''Summarize news'')"
| "agent_of Classify = (lit ''Triage Agent'', lit ''Classify message with history context'')"
| "agent_of General_answer =
     (lit ''General Assistant'', lit ''Answer general queries with context from chat history'')"

fun request_of :: "variant \<Rightarrow> site \<Rightarrow> message list \<Rightarrow> request" where
  "request_of Chat st prompt = Run_sync (fst (agent_of st)) (snd (agent_of st)) prompt"
| "request_of Chatlit st prompt = Litellm_completion (lit ''gemini/gemini-2.0-flash'') prompt"

definition complete :: "env \<Rightarrow> variant \<Rightarrow> site \<Rightarrow> message list \<Rightarrow> pystr io" where
  "complete e v st prompt log =
     (llm_reply e (length log) (request_of v st prompt), log @ [Llm st (request_of v st prompt)])"

section \<open>News fetcher\<close>

text \<open>\<open>get_real_news\<close> of \<open>chat.py\<close>: the URL.\<close>

definition news_url_chat :: "pystr \<Rightarrow> pystr \<Rightarrow> pystr" where
  "news_url_chat key category =
     (if category = lit ''cryptocurrency''
      then lit ''https://newsapi.org/v2/everything?q='' @ category @ lit ''&apiKey='' @ key
           @ lit ''&language=en&sortBy=publishedAt''
      else lit ''https://newsapi.org/v2/top-headlines?category='' @ category @ lit ''&apiKey=''
           @ key @ lit ''&language=en'')"

text \<open>\<open>get_real_news\<close> of \<open>chatbot/chatlit.py\<close>: the category mapping and the URL.\<close>

definition category_mapping :: "pystr \<rightharpoonup> pystr" where
  "category_mapping =
     map_of [(lit ''tech'', lit ''technology''), (lit ''finance'', lit ''business''),
             (lit ''health'', lit ''health'')]"

definition news_url_chatlit :: "pystr \<Rightarrow> pystr \<Rightarrow> pystr" where
  "news_url_chatlit key category =
     (let newsapi_category = (case category_mapping category of None \<Rightarrow> category | Some c \<Rightarrow> c)
      in lit ''https://newsapi.org/v2/top-headlines?category='' @ newsapi_category
         @ lit ''&apiKey='' @ key @ lit ''&language=en'')"

fun news_url :: "variant \<Rightarrow> pystr \<Rightarrow> pystr \<Rightarrow> pystr" where
  "news_url Chat key category = news_url_chat key category"
| "news_url Chatlit key category = news_url_chatlit key category"

text \<open>
  The body of the \<open>try\<close> block, the same in both files: \<open>Inl\<close> is the text of an
  exception raised inside it, \<open>Inr\<close> the string it returns.
\<close>

definition titles :: "article list \<Rightarrow> pystr list" where
  "titles arts = map (\<lambda>t. lit ''- '' @ t) (List.map_filter (\<lambda>a. a) arts)"

fun fetch_try :: "http_result \<Rightarrow> pystr + pystr" where
  "fetch_try (Get_raised text) = Inl text"
| "fetch_try (Response status_code (Rejected text)) = Inl text"
| "fetch_try (Response status_code (Json_object msg arts)) =
     (if status_code \<noteq> 200
      then Inr (lit ''Failed to fetch news: HTTP '' @ str_int status_code @ lit '' - ''
                @ (case msg of None \<Rightarrow> lit ''Unknown error'' | Some m \<Rightarrow> m))
      else Inr (py_join [10] (titles (take 10 (case arts of None \<Rightarrow> [] | Some xs \<Rightarrow> xs)))))"

text \<open>The \<open>except Exception as e\<close> clause turns every exception into a string.\<close>

definition fetch_result :: "http_result \<Rightarrow> pystr" where
  "fetch_result r =
     (case fetch_try r of Inl text \<Rightarrow> lit ''Failed to fetch news: '' @ text | Inr s \<Rightarrow> s)"

definition get_real_news :: "env \<Rightarrow> variant \<Rightarrow> pystr \<Rightarrow> pystr io" where
  "get_real_news e v category log =
     (let url = news_url v (news_api_key e) category
      in (Inr (fetch_result (http_reply e (length log) url)), log @ [Requests_get url]))"

section \<open>Summaries\<close>

text \<open>
  Three system prompts are written as adjacent string literals closed by
  \<open>f"\nConversation history summary: {history_summary}" if history_summary else ""\<close>.
  Python joins adjacent literals before it applies the conditional expression, so the
  condition selects between the whole joined text and the empty string.
\<close>

definition with_summary :: "pystr \<Rightarrow> pystr \<Rightarrow> pystr" where
  "with_summary text history_summary =
     (if history_summary \<noteq> []
      then text @ lit ''\<newline>Conversation history summary: '' @ history_summary
      else [])"

definition history_instructions :: pystr where
  "history_instructions =
     lit ''Summarize the following conversation history concisely, focusing on key details like the user's name, preferences, or previous search topics.''"

definition flatten_history :: "message list \<Rightarrow> pystr" where
  "flatten_history history = py_join [10] (map (\<lambda>msg. role msg @ lit '': '' @ content msg) history)"

definition summarize_history :: "env \<Rightarrow> variant \<Rightarrow> message list \<Rightarrow> pystr io" where
  "summarize_history e v history =
     (if history = [] then io_return []
      else complete e v Summarize_history
             [system_msg history_instructions, user_msg (flatten_history history)])"

text \<open>
  The expression \<open>summarize_history(history) if len(history) > 10 else ""\<close>, which
  opens the classification, the news summary and the general answer.
\<close>

definition history_summary_if_long :: "env \<Rightarrow> variant \<Rightarrow> message list \<Rightarrow> pystr io" where
  "history_summary_if_long e v history =
     (if length history > 10 then summarize_history e v history else io_return [])"

definition news_instructions :: "pystr \<Rightarrow> pystr" where
  "news_instructions category =
     lit ''You are a smart news assistant. Summarize the following '' @ category
     @ lit '' news for a user. ''
     @ lit ''Use the conversation history summary to tailor the response if relevant.''"

definition news_prompt :: "pystr \<Rightarrow> pystr \<Rightarrow> pystr \<Rightarrow> message list \<Rightarrow> message list" where
  "news_prompt history_summary news_text category history =
     [system_msg (with_summary (news_instructions category) history_summary),
      user_msg news_text] @ last_n 5 history"

definition summarize_with_llm :: "env \<Rightarrow> variant \<Rightarrow> pystr \<Rightarrow> pystr \<Rightarrow> message list \<Rightarrow> pystr io" where
  "summarize_with_llm e v news_text category history =
     io_bind (history_summary_if_long e v history) (\<lambda>history_summary.
       complete e v Summarize_news (news_prompt history_summary news_text category history))"

section \<open>The message handler\<close>

definition classification_instructions :: pystr where
  "classification_instructions =
     lit ''Classify the user's message based on the conversation history and current input:\<newline>''
     @ lit ''- If the user wants the **latest news**, classify it as one of: 'news-tech', 'news-health', 'news-business', 'news-crypto'.\<newline>''
     @ lit ''- If the user is asking a **general question** (e.g., definition, explanation, or follow-up like 'What was my last search?'), return 'general'.\<newline>''
     @ lit ''Consider the conversation history to identify follow-up questions or context (e.g., user''
     @ [8217] @ lit ''s name or previous searches).\<newline>''
     @ lit ''Examples:\<newline>''
     @ lit ''- 'What is an ulcer?' '' @ [8594] @ lit '' general\<newline>''
     @ lit ''- 'Tell me the latest about crypto' '' @ [8594] @ lit '' news-crypto\<newline>''
     @ lit ''- 'Explain AI' '' @ [8594] @ lit '' general\<newline>''
     @ lit ''- 'Any business updates?' '' @ [8594] @ lit '' news-business\<newline>''
     @ lit ''- 'What was my last news search?' '' @ [8594] @ lit '' general\<newline>''"

definition classification_prompt :: "pystr \<Rightarrow> message list \<Rightarrow> pystr \<Rightarrow> message list" where
  "classification_prompt history_summary history message_content =
     [system_msg (with_summary classification_instructions history_summary)]
     @ last_n 5 history @ [user_msg message_content]"

text \<open>Step 1 of \<open>main\<close>: the topic is the classifier's output, stripped, then lower-cased.\<close>

definition classify :: "env \<Rightarrow> variant \<Rightarrow> pystr \<Rightarrow> message list \<Rightarrow> pystr io" where
  "classify e v message_content history =
     io_bind (history_summary_if_long e v history) (\<lambda>history_summary.
     io_bind (complete e v Classify (classification_prompt history_summary history message_content))
       (\<lambda>final_output. io_return (py_lower (py_strip final_output))))"

definition valid_categories :: "pystr \<rightharpoonup> pystr" where
  "valid_categories =
     map_of [(lit ''news-tech'', lit ''technology''), (lit ''news-health'', lit ''health''),
             (lit ''news-business'', lit ''business''), (lit ''news-crypto'', lit ''cryptocurrency'')]"

definition news_response :: "pystr \<Rightarrow> pystr \<Rightarrow> pystr" where
  "news_response category summary =
     [128240] @ lit '' Here is the latest **'' @ category @ lit ''** news:\<newline>\<newline>'' @ summary"

text \<open>Step 2 of \<open>main\<close>: fetch and summarize news.\<close>

definition news_path :: "env \<Rightarrow> variant \<Rightarrow> pystr \<Rightarrow> message list \<Rightarrow> pystr io" where
  "news_path e v category history =
     io_bind (get_real_news e v category) (\<lambda>news.
     io_bind (summarize_with_llm e v news category history) (\<lambda>summary.
       io_return (news_response category summary)))"

definition general_instructions :: pystr where
  "general_instructions =
     lit ''You are a helpful assistant. Answer the user's question based on the conversation history provided below. ''
     @ lit ''If the user asks about information from previous messages (e.g., their name or past searches), use the history to respond accurately.''"

definition general_prompt :: "pystr \<Rightarrow> message list \<Rightarrow> message list" where
  "general_prompt history_summary history =
     [system_msg (with_summary general_instructions history_summary)] @ last_n 10 history"

text \<open>Step 3 of \<open>main\<close>: answer a general question.\<close>

definition general_path :: "env \<Rightarrow> variant \<Rightarrow> message list \<Rightarrow> pystr io" where
  "general_path e v history =
     io_bind (history_summary_if_long e v history) (\<lambda>history_summary.
       complete e v General_answer (general_prompt history_summary history))"

text \<open>Steps 1 to 3 on the history that already holds the incoming message.\<close>

definition turn_response :: "env \<Rightarrow> variant \<Rightarrow> pystr \<Rightarrow> message list \<Rightarrow> pystr io" where
  "turn_response e v message_content history =
     io_bind (classify e v message_content history) (\<lambda>topic.
       case valid_categories topic of
         Some category \<Rightarrow> news_path e v category history
       | None \<Rightarrow> general_path e v history)"

text \<open>
  \<open>main\<close>: the stored history (\<open>None\<close> when the session has none) gets the user's
  message, the response is computed and appended. The result is the response or the
  exception that escapes, the history the session holds afterwards, and the call log.
\<close>

definition main ::
  "env \<Rightarrow> variant \<Rightarrow> pystr \<Rightarrow> message list option \<Rightarrow> call list
     \<Rightarrow> (exn + pystr) \<times> message list \<times> call list" where
  "main e v message_content chat_history log =
     (let history = (case chat_history of None \<Rightarrow> [] | Some h \<Rightarrow> h) @ [user_msg message_content]
      in case turn_response e v message_content history log of
           (Inl ex, log') \<Rightarrow> (Inl ex, history, log')
         | (Inr response, log') \<Rightarrow> (Inr response, history @ [assistant_msg response], log'))"

section \<open>The archive\<close>

text \<open>
  A value as \<open>json.load\<close> returns it and \<open>json.dump\<close> writes it: \<open>None\<close>, a bool, an
  int, a string, a list, or a dict with string keys (an association list with
  distinct keys). Floating-point numbers are not part of the model.
\<close>

datatype json = JNull | JBool bool | JInt int | JStr pystr | JArr "json list"
  | JObj "(pystr \<times> json) list"

text \<open>Python's truth value, which \<open>if all_history\<close> and \<open>if not history\<close> test.\<close>

fun truthy :: "json \<Rightarrow> bool" where
  "truthy JNull = False"
| "truthy (JBool b) = b"
| "truthy (JInt i) = (i \<noteq> 0)"
| "truthy (JStr s) = (s \<noteq> [])"
| "truthy (JArr xs) = (xs \<noteq> [])"
| "truthy (JObj kvs) = (kvs \<noteq> [])"

text \<open>\<open>x[-1]\<close> and \<open>x["session"]\<close> on such a value.\<close>

fun subscript_last :: "json \<Rightarrow> exn + json" where
  "subscript_last (JArr xs) = (if xs = [] then Inl Index_error else Inr (last xs))"
| "subscript_last (JStr s) = (if s = [] then Inl Index_error else Inr (JStr [last s]))"
| "subscript_last (JObj kvs) = Inl Key_error"
| "subscript_last _ = Inl Type_error"

fun subscript_key :: "json \<Rightarrow> pystr \<Rightarrow> exn + json" where
  "subscript_key (JObj kvs) k = (case map_of kvs k of None \<Rightarrow> Inl Key_error | Some v \<Rightarrow> Inr v)"
| "subscript_key _ k = Inl Type_error"

text \<open>
  The file \<open>chat_history.json\<close> is absent or holds bytes. What \<open>open\<close> and the
  \<open>json\<close> module do with it belongs to the platform, so it is a parameter of the
  handlers. Reading a file (\<open>open(filename, "r")\<close> and \<open>json.load(f)\<close>) returns a
  value, or raises \<open>JSONDecodeError\<close>, or raises something else: \<open>UnicodeDecodeError\<close>
  on bytes that are not text, \<open>RecursionError\<close> on nesting that is too deep,
  \<open>ValueError\<close> on an integer with too many digits, \<open>OSError\<close> from \<open>open\<close>. Writing a
  value (\<open>open(filename, "w")\<close> and \<open>json.dump(all_history, f, indent=2)\<close>) leaves
  the bytes of the document, or \<open>open\<close> raises and the file is untouched, or
  \<open>json.dump\<close> raises and the file holds what was written until then.
\<close>

type_synonym bytes = "nat list"

datatype load_result = Loaded json | Json_decode_error | Load_raised exn

datatype dump_result = Dumped bytes | Open_raised exn | Dump_raised exn bytes

record storage =
  load_file :: "bytes \<Rightarrow> load_result"
  dump_file :: "json \<Rightarrow> dump_result"

type_synonym fs = "bytes option"

datatype file_op = Path_exists | Read_file | Write_file json

text \<open>The message as a Python value, and the history of a session as one.\<close>

definition msg_json :: "message \<Rightarrow> json" where
  "msg_json m = JObj [(lit ''role'', JStr (role m)), (lit ''content'', JStr (content m))]"

definition history_json :: "message list \<Rightarrow> json" where
  "history_json h = JArr (map msg_json h)"

text \<open>
  \<open>start\<close>: the value stored as \<open>chat_history\<close>, or the exception that escapes. Only
  \<open>JSONDecodeError\<close> is caught.
\<close>

definition start :: "storage \<Rightarrow> fs \<Rightarrow> (exn + json) \<times> file_op list" where
  "start lib disk =
     (case disk of
        None \<Rightarrow> (Inr (JArr []), [Path_exists])
      | Some stored \<Rightarrow>
          (case load_file lib stored of
             Loaded all_history \<Rightarrow>
               (if truthy all_history
                then (case subscript_last all_history of
                        Inl ex \<Rightarrow> Inl ex
                      | Inr last_record \<Rightarrow> subscript_key last_record (lit ''session''))
                else Inr (JArr []))
           | Json_decode_error \<Rightarrow> Inr (JArr [])
           | Load_raised ex \<Rightarrow> Inl ex,
           [Path_exists, Read_file]))"

text \<open>
  The block of \<open>end\<close> that loads the old archive: the list to append to, or the
  exception that escapes. Again only \<open>JSONDecodeError\<close> is caught.
\<close>

definition load_all_history :: "storage \<Rightarrow> fs \<Rightarrow> (exn + json) \<times> file_op list" where
  "load_all_history lib disk =
     (case disk of
        None \<Rightarrow> (Inr (JArr []), [Path_exists])
      | Some stored \<Rightarrow>
          (case load_file lib stored of
             Loaded all_history \<Rightarrow> Inr all_history
           | Json_decode_error \<Rightarrow> Inr (JArr [])
           | Load_raised ex \<Rightarrow> Inl ex,
           [Path_exists, Read_file]))"

definition session_record :: "pystr \<Rightarrow> json \<Rightarrow> json" where
  "session_record now history = JObj [(lit ''timestamp'', JStr now), (lit ''session'', history)]"

text \<open>
  The block of \<open>end\<close> that saves the combined history: the exception that escapes, if
  any, the file afterwards and the write made.
\<close>

definition save_all_history :: "storage \<Rightarrow> json \<Rightarrow> fs \<Rightarrow> exn option \<times> fs \<times> file_op list" where
  "save_all_history lib all_history disk =
     (case dump_file lib all_history of
        Dumped written \<Rightarrow> (None, Some written, [Write_file all_history])
      | Open_raised ex \<Rightarrow> (Some ex, disk, [])
      | Dump_raised ex partial \<Rightarrow> (Some ex, Some partial, [Write_file all_history]))"

text \<open>
  \<open>end\<close>: \<open>now\<close> is the formatted clock reading, \<open>chat_history\<close> the session's value
  (\<open>None\<close> when unset, which \<open>cl.user_session.get\<close> returns as Python's \<open>None\<close>).
  \<open>append\<close> exists on lists only. The result is the exception that escapes, if any,
  the file afterwards and the file operations made.
\<close>

definition end_chat ::
  "storage \<Rightarrow> pystr \<Rightarrow> json option \<Rightarrow> fs \<Rightarrow> exn option \<times> fs \<times> file_op list" where
  "end_chat lib now chat_history disk =
     (let history = (case chat_history of None \<Rightarrow> JNull | Some h \<Rightarrow> h)
      in if \<not> truthy history then (None, disk, [])
         else (case load_all_history lib disk of
                 (Inl ex, ops) \<Rightarrow> (Some ex, disk, ops)
               | (Inr loaded, ops) \<Rightarrow>
                   (case loaded of
                      JArr records \<Rightarrow>
                        (case save_all_history lib
                                (JArr (records @ [session_record now history])) disk of
                           (ex, disk', written) \<Rightarrow> (ex, disk', ops @ written))
                    | _ \<Rightarrow> (Some Attribute_error, disk, ops))))"





section \<open>Observations on the call log\<close>

text \<open>The message list a completion request carries, in either variant.\<close>

fun prompt_of :: "request \<Rightarrow> message list" where
  "prompt_of (Run_sync name instr prompt) = prompt"
| "prompt_of (Litellm_completion mdl prompt) = prompt"

text \<open>The completion calls made by \<open>summarize_history\<close>, and their number in a log.\<close>

fun is_summary_call :: "call \<Rightarrow> bool" where
  "is_summary_call (Llm st rq) = (st = Summarize_history)"
| "is_summary_call (Requests_get url) = False"

definition summary_calls :: "call list \<Rightarrow> nat" where
  "summary_calls log = length (filter is_summary_call log)"

definition summary_request :: "variant \<Rightarrow> message list \<Rightarrow> request" where
  "summary_request v history =
     request_of v Summarize_history
       [system_msg history_instructions, user_msg (flatten_history history)]"

text \<open>The URLs requested from the news provider, in order.\<close>

fun news_requests :: "call list \<Rightarrow> pystr list" where
  "news_requests [] = []"
| "news_requests (Requests_get url # cs) = url # news_requests cs"
| "news_requests (Llm st rq # cs) = news_requests cs"

text \<open>The prompts of the classification calls in a log, in order.\<close>

fun classification_prompts :: "call list \<Rightarrow> message list list" where
  "classification_prompts [] = []"
| "classification_prompts (Llm st rq # cs) =
     (if st = Classify then prompt_of rq # classification_prompts cs
      else classification_prompts cs)"
| "classification_prompts (Requests_get url # cs) = classification_prompts cs"

text \<open>
  A log of \<open>chat.py\<close> read as a log of \<open>chatbot/chatlit.py\<close>: each completion request
  keeps its prompt and goes through \<open>litellm.completion\<close>.
\<close>

fun as_chatlit :: "call \<Rightarrow> call" where
  "as_chatlit (Llm st rq) = Llm st (request_of Chatlit st (prompt_of rq))"
| "as_chatlit (Requests_get url) = Requests_get url"

text \<open>
  An environment for concrete runs: the completion provider answers every request with
  \<open>label\<close>, the news provider answers every request with \<open>reply\<close>.
\<close>

definition example_env :: "pystr \<Rightarrow> http_result \<Rightarrow> env" where
  "example_env label reply =
     \<lparr>news_api_key = lit ''KEY'', llm_reply = (\<lambda>k rq. Inr label),
      http_reply = (\<lambda>k url. reply)\<rparr>"

text \<open>
  Two archives as \<open>json.dump\<close> with \<open>indent=2\<close> writes them: one session of two
  messages, and that session followed by a session of one message.
\<close>

definition first_session :: json where
  "first_session =
     JObj [(lit ''timestamp'', JStr (lit ''2026-01-01 10:00:00'')),
           (lit ''session'',
            JArr [JObj [(lit ''role'', JStr (lit ''user'')), (lit ''content'', JStr (lit ''Hi''))],
                  JObj [(lit ''role'', JStr (lit ''assistant'')),
                        (lit ''content'', JStr (lit ''Hello''))]])]"

definition second_session :: json where
  "second_session =
     JObj [(lit ''timestamp'', JStr (lit ''2026-01-02 11:30:00'')),
           (lit ''session'',
            JArr [JObj [(lit ''role'', JStr (lit ''user'')),
                        (lit ''content'', JStr (lit ''News?''))]])]"

definition archive_one :: bytes where
  \<open>archive_one =
     lit ''[\<newline>''
     @ lit ''  {\<newline>''
     @ lit ''    "timestamp": "2026-01-01 10:00:00",\<newline>''
     @ lit ''    "session": [\<newline>''
     @ lit ''      {\<newline>''
     @ lit ''        "role": "user",\<newline>''
     @ lit ''        "content": "Hi"\<newline>''
     @ lit ''      },\<newline>''
     @ lit ''      {\<newline>''
     @ lit ''        "role": "assistant",\<newline>''
     @ lit ''        "content": "Hello"\<newline>''
     @ lit ''      }\<newline>''
     @ lit ''    ]\<newline>''
     @ lit ''  }\<newline>''
     @ lit '']''\<close>

definition archive_two :: bytes where
  \<open>archive_two =
     lit ''[\<newline>''
     @ lit ''  {\<newline>''
     @ lit ''    "timestamp": "2026-01-01 10:00:00",\<newline>''
     @ lit ''    "session": [\<newline>''
     @ lit ''      {\<newline>''
     @ lit ''        "role": "user",\<newline>''
     @ lit ''        "content": "Hi"\<newline>''
     @ lit ''      },\<newline>''
     @ lit ''      {\<newline>''
     @ lit ''        "role": "assistant",\<newline>''
     @ lit ''        "content": "Hello"\<newline>''
     @ lit ''      }\<newline>''
     @ lit ''    ]\<newline>''
     @ lit ''  },\<newline>''
     @ lit ''  {\<newline>''
     @ lit ''    "timestamp": "2026-01-02 11:30:00",\<newline>''
     @ lit ''    "session": [\<newline>''
     @ lit ''      {\<newline>''
     @ lit ''        "role": "user",\<newline>''
     @ lit ''        "content": "News?"\<newline>''
     @ lit ''      }\<newline>''
     @ lit ''    ]\<newline>''
     @ lit ''  }\<newline>''
     @ lit '']''\<close>

text \<open>
  A platform for concrete runs. It reads and writes the two archives above, the byte
  0xFF is not UTF-8 text and raises \<open>UnicodeDecodeError\<close>, and every other file, such as
  the text \<open>[1, 2\<close>, is rejected with \<open>JSONDecodeError\<close>; it refuses to write any other
  document.
\<close>

definition example_storage :: storage where
  "example_storage =
     \<lparr>load_file = (\<lambda>stored.
        if stored = [255] then Load_raised Unicode_decode_error
        else if stored = archive_one then Loaded (JArr [first_session])
        else if stored = archive_two then Loaded (JArr [first_session, second_session])
        else Json_decode_error),
      dump_file = (\<lambda>all_history.
        if all_history = JArr [first_session] then Dumped archive_one
        else if all_history = JArr [first_session, second_session] then Dumped archive_two
        else Open_raised Os_error)\<rparr>"

section \<open>Basic facts\<close>

lemma example_env_simps [simp]:
  "news_api_key (example_env label reply) = lit ''KEY''"
  "llm_reply (example_env label reply) k rq = Inr label"
  "http_reply (example_env label reply) k url = reply"
  by (simp_all add: example_env_def)

lemma with_summary_empty: "with_summary text [] = []"
  by (simp add: with_summary_def)

lemma with_summary_nonempty:
  "history_summary \<noteq> [] \<Longrightarrow>
   with_summary text history_summary =
     text @ lit ''\<newline>Conversation history summary: '' @ history_summary"
  by (simp add: with_summary_def)

lemma prompt_of_request_of [simp]: "prompt_of (request_of v st prompt) = prompt"
  by (cases v) simp_all

lemma summary_calls_append [simp]:
  "summary_calls (xs @ ys) = summary_calls xs + summary_calls ys"
  by (simp add: summary_calls_def)

lemma summary_calls_simps [simp]:
  "summary_calls [] = 0"
  "summary_calls (Llm st rq # cs) = (if st = Summarize_history then 1 else 0) + summary_calls cs"
  "summary_calls (Requests_get u # cs) = summary_calls cs"
  by (simp_all add: summary_calls_def)

lemma classification_prompts_append [simp]:
  "classification_prompts (xs @ ys) = classification_prompts xs @ classification_prompts ys"
  by (induction xs rule: classification_prompts.induct) simp_all

lemma news_requests_append [simp]:
  "news_requests (xs @ ys) = news_requests xs @ news_requests ys"
  by (induction xs rule: news_requests.induct) simp_all

lemma news_requests_as_chatlit [simp]: "news_requests (map as_chatlit log) = news_requests log"
  by (induction log rule: news_requests.induct) simp_all

lemma last_n_snoc: "0 < n \<Longrightarrow> last_n n (xs @ [x]) = last_n (n - 1) xs @ [x]"
  by (cases n) (simp_all add: last_n_def Suc_diff_le)

lemma io_bind_return_snd: "snd (io_bind m (\<lambda>x. io_return (f x)) log) = snd (m log)"
  by (simp add: io_bind_def io_return_def split: prod.splits sum.splits)

lemma valid_categories_cases:
  "valid_categories topic =
     (if topic = lit ''news-tech'' then Some (lit ''technology'')
      else if topic = lit ''news-health'' then Some (lit ''health'')
      else if topic = lit ''news-business'' then Some (lit ''business'')
      else if topic = lit ''news-crypto'' then Some (lit ''cryptocurrency'')
      else None)"
  by (simp add: valid_categories_def)

subsection \<open>The history summary\<close>

lemma history_summary_short:
  "length history \<le> 10 \<Longrightarrow> history_summary_if_long e v history log = (Inr [], log)"
  by (simp add: history_summary_if_long_def io_return_def)

lemma history_summary_long:
  "length history > 10 \<Longrightarrow>
   history_summary_if_long e v history log =
     (llm_reply e (length log) (summary_request v history),
      log @ [Llm Summarize_history (summary_request v history)])"
  by (auto simp add: history_summary_if_long_def summarize_history_def complete_def
      summary_request_def)

lemma history_summary_cases:
  "history_summary_if_long e v history log =
     (if length history > 10
      then (llm_reply e (length log) (summary_request v history),
            log @ [Llm Summarize_history (summary_request v history)])
      else (Inr [], log))"
  by (simp add: history_summary_short history_summary_long)

lemma classify_short:
  "length history \<le> 10 \<Longrightarrow>
   snd (classify e v mc history log) =
     log @ [Llm Classify (request_of v Classify (classification_prompt [] history mc))]"
  by (simp add: classify_def io_bind_def history_summary_short complete_def io_return_def
      split: sum.splits)

lemma summarize_with_llm_short:
  "length history \<le> 10 \<Longrightarrow>
   snd (summarize_with_llm e v news category history log) =
     log @ [Llm Summarize_news
              (request_of v Summarize_news (news_prompt [] news category history))]"
  by (simp add: summarize_with_llm_def io_bind_def history_summary_short complete_def)

lemma general_path_short:
  "length history \<le> 10 \<Longrightarrow>
   snd (general_path e v history log) =
     log @ [Llm General_answer (request_of v General_answer (general_prompt [] history))]"
  by (simp add: general_path_def io_bind_def history_summary_short complete_def)

lemma classify_long:
  "length history > 10 \<Longrightarrow>
   \<exists>rest. snd (classify e v mc history log) =
            log @ Llm Summarize_history (summary_request v history) # rest
          \<and> summary_calls rest = 0"
  by (simp add: classify_def io_bind_def history_summary_long complete_def io_return_def
      split: sum.splits)

lemma summarize_with_llm_long:
  "length history > 10 \<Longrightarrow>
   \<exists>rest. snd (summarize_with_llm e v news category history log) =
            log @ Llm Summarize_history (summary_request v history) # rest
          \<and> summary_calls rest = 0"
  by (simp add: summarize_with_llm_def io_bind_def history_summary_long complete_def
      split: sum.splits)

lemma general_path_long:
  "length history > 10 \<Longrightarrow>
   \<exists>rest. snd (general_path e v history log) =
            log @ Llm Summarize_history (summary_request v history) # rest
          \<and> summary_calls rest = 0"
  by (simp add: general_path_def io_bind_def history_summary_long complete_def
      split: sum.splits)

subsection \<open>What each step adds to the log\<close>

lemma get_real_news_eq:
  "get_real_news e v category log =
     (Inr (fetch_result (http_reply e (length log) (news_url v (news_api_key e) category))),
      log @ [Requests_get (news_url v (news_api_key e) category)])"
  by (simp add: get_real_news_def Let_def)

lemma news_path_eq:
  "news_path e v category history log =
     io_bind (summarize_with_llm e v
                (fetch_result (http_reply e (length log) (news_url v (news_api_key e) category)))
                category history)
       (\<lambda>summary. io_return (news_response category summary))
       (log @ [Requests_get (news_url v (news_api_key e) category)])"
  by (simp add: news_path_def io_bind_def get_real_news_eq)

lemma general_path_log:
  "\<exists>new. snd (general_path e v history log) = log @ new \<and> classification_prompts new = []
         \<and> news_requests new = []"
  by (simp add: general_path_def io_bind_def history_summary_cases complete_def
      split: sum.splits)

lemma summarize_with_llm_log:
  "\<exists>new. snd (summarize_with_llm e v news category history log) = log @ new
         \<and> classification_prompts new = [] \<and> news_requests new = []"
  by (simp add: summarize_with_llm_def io_bind_def history_summary_cases complete_def
      split: sum.splits)

lemma news_path_log:
  "\<exists>new. snd (news_path e v category history log) = log @ new
         \<and> classification_prompts new = []
         \<and> news_requests new = [news_url v (news_api_key e) category]"
proof -
  let ?url = "news_url v (news_api_key e) category"
  let ?text = "fetch_result (http_reply e (length log) ?url)"
  obtain new where new:
    "snd (summarize_with_llm e v ?text category history (log @ [Requests_get ?url]))
       = (log @ [Requests_get ?url]) @ new"
    "classification_prompts new = []" "news_requests new = []"
    using summarize_with_llm_log by blast
  have "snd (news_path e v category history log) = log @ (Requests_get ?url # new)"
    by (simp add: news_path_eq io_bind_return_snd new)
  then show ?thesis using new by (intro exI [of _ "Requests_get ?url # new"]) simp
qed

lemma dispatch_log:
  "\<exists>new. snd ((case valid_categories topic of
                  Some category \<Rightarrow> news_path e v category history
                | None \<Rightarrow> general_path e v history) log) = log @ new
         \<and> classification_prompts new = []"
  using news_path_log general_path_log by (cases "valid_categories topic") (simp; blast)+

lemma turn_response_classification_prompts:
  "classification_prompts (drop (length log) (snd (turn_response e v mc history log))) =
     (case fst (history_summary_if_long e v history log) of
        Inl ex \<Rightarrow> []
      | Inr history_summary \<Rightarrow> [classification_prompt history_summary history mc])"
proof (cases "history_summary_if_long e v history log")
  case (Pair r log0)
  obtain new0 where log0: "log0 = log @ new0" "classification_prompts new0 = []"
    using Pair by (auto simp add: history_summary_cases split: if_splits)
  show ?thesis
  proof (cases r)
    case (Inl ex)
    then show ?thesis using Pair log0
      by (simp add: turn_response_def classify_def io_bind_def)
  next
    case (Inr hs)
    let ?rq = "request_of v Classify (classification_prompt hs history mc)"
    let ?log1 = "log0 @ [Llm Classify ?rq]"
    show ?thesis
    proof (cases "llm_reply e (length log0) ?rq")
      case (Inl ex)
      then show ?thesis using Pair Inr log0
        by (simp add: turn_response_def classify_def io_bind_def complete_def
            del: request_of.simps)
    next
      case out: (Inr out)
      obtain new where new:
        "snd ((case valid_categories (py_lower (py_strip out)) of
                  Some category \<Rightarrow> news_path e v category history
                | None \<Rightarrow> general_path e v history) ?log1) = ?log1 @ new"
        "classification_prompts new = []"
        using dispatch_log by blast
      have "snd (turn_response e v mc history log) = ?log1 @ new"
        using Pair Inr out new(1)
        by (simp add: turn_response_def classify_def io_bind_def complete_def io_return_def)
      then show ?thesis using Pair Inr log0 new(2) by (simp del: request_of.simps)
    qed
  qed
qed

section \<open>The classification request (C1, C9)\<close>

lemma sublist_at: "take (length xs) (drop n ys) = xs \<Longrightarrow> sublist xs ys"
  by (metis append_take_drop_id sublist_appendI)

text \<open>The instruction text names the five labels.\<close>

lemma classification_instructions_labels:
  "sublist (lit ''news-tech'') classification_instructions"
  "sublist (lit ''news-health'') classification_instructions"
  "sublist (lit ''news-business'') classification_instructions"
  "sublist (lit ''news-crypto'') classification_instructions"
  "sublist (lit ''general'') classification_instructions"
proof -
  show "sublist (lit ''news-tech'') classification_instructions"
    by (rule sublist_at [where n = 146]) (simp add: classification_instructions_def)
  show "sublist (lit ''news-health'') classification_instructions"
    by (rule sublist_at [where n = 159]) (simp add: classification_instructions_def)
  show "sublist (lit ''news-business'') classification_instructions"
    by (rule sublist_at [where n = 174]) (simp add: classification_instructions_def)
  show "sublist (lit ''news-crypto'') classification_instructions"
    by (rule sublist_at [where n = 191]) (simp add: classification_instructions_def)
  show "sublist (lit ''general'') classification_instructions"
    by (rule sublist_at [where n = 233]) (simp add: classification_instructions_def)
qed

text \<open>
  With a non-empty summary the system message holds the instructions followed by the
  summary; with an empty summary its content is the empty string.
\<close>

lemma classification_prompt_system_message:
  "hd (classification_prompt history_summary history mc) =
     system_msg (if history_summary \<noteq> []
                 then classification_instructions
                      @ lit ''\<newline>Conversation history summary: '' @ history_summary
                 else [])"
  by (simp add: classification_prompt_def with_summary_def)

lemma classify_short_system_message:
  "length history \<le> 10 \<Longrightarrow>
   classification_prompts (drop (length log) (snd (classify e v mc history log))) =
     [system_msg [] # last_n 5 history @ [user_msg mc]]"
  by (simp add: classify_short classification_prompt_def with_summary_empty
      del: request_of.simps)

text \<open>
  C1 (code defect). The claim: in every turn the classification request begins with a
  system message that enumerates the label vocabulary with worked examples, also when
  the history has at most 10 messages and the summary is empty. The code at the first
  message of a session, \<open>Tell me the latest about crypto\<close>, in both variants: the
  request is a system message with empty content followed by the user's message twice.
\<close>

theorem classification_system_message_empty:
  "classification_prompts
     (snd (snd (main (example_env (lit ''news-crypto'') (Response 200 (Json_object None None)))
                  Chat (lit ''Tell me the latest about crypto'') None [])))
   = [[system_msg [], user_msg (lit ''Tell me the latest about crypto''),
       user_msg (lit ''Tell me the latest about crypto'')]]
   \<and> classification_prompts
     (snd (snd (main (example_env (lit ''news-crypto'') (Response 200 (Json_object None None)))
                  Chatlit (lit ''Tell me the latest about crypto'') None [])))
   = [[system_msg [], user_msg (lit ''Tell me the latest about crypto''),
       user_msg (lit ''Tell me the latest about crypto'')]]"
  by (simp add: main_def turn_response_def classify_def io_bind_def io_return_def complete_def
       history_summary_if_long_def classification_prompt_def with_summary_def last_n_def
       py_lower_def py_strip_def py_isspace_def py_lower_cp_def valid_categories_def
       news_path_def get_real_news_def summarize_with_llm_def Let_def)

lemma main_unset_history: "main e v mc None log = main e v mc (Some []) log"
  by (simp add: main_def)

text \<open>
  C9. For every incoming user message, the classification prompt of the turn holds that
  message twice. The handler appends the message to the stored history before it builds
  the prompt, so the slice of the last 5 history entries is the last 4 stored messages
  followed by the message, and the prompt appends the message once more after the slice.
  The turn makes this one classification call; only when the history has more than 10
  entries and the summary call raises does it make none. An unset history behaves as
  the empty one.
\<close>

theorem classification_prompt_repeats_message:
  "classification_prompts (drop (length log) (snd (snd (main e v mc (Some stored) log)))) =
     (if length stored < 10
      then [\<lparr>role = lit ''system'', content = []\<rparr>
            # drop (length stored - 4) stored
            @ [\<lparr>role = lit ''user'', content = mc\<rparr>, \<lparr>role = lit ''user'', content = mc\<rparr>]]
      else case llm_reply e (length log)
                  (summary_request v (stored @ [\<lparr>role = lit ''user'', content = mc\<rparr>])) of
             Inl ex \<Rightarrow> []
           | Inr history_summary \<Rightarrow>
               [\<lparr>role = lit ''system'',
                 content = (if history_summary = [] then []
                            else classification_instructions
                                 @ lit ''\<newline>Conversation history summary: ''
                                 @ history_summary)\<rparr>
                # drop (length stored - 4) stored
                @ [\<lparr>role = lit ''user'', content = mc\<rparr>, \<lparr>role = lit ''user'', content = mc\<rparr>]])
   \<and> main e v mc None log = main e v mc (Some []) log
   \<and> drop (length (stored @ [\<lparr>role = lit ''user'', content = mc\<rparr>]) - 5)
         (stored @ [\<lparr>role = lit ''user'', content = mc\<rparr>])
       = drop (length stored - 4) stored @ [\<lparr>role = lit ''user'', content = mc\<rparr>]"
proof -
  let ?m = "\<lparr>role = lit ''user'', content = mc\<rparr>"
  let ?history = "stored @ [?m]"
  have m: "user_msg mc = ?m" by (simp add: user_msg_def)
  have slice: "drop (length ?history - 5) ?history = drop (length stored - 4) stored @ [?m]"
    by (cases "4 \<le> length stored") (simp_all add: Suc_diff_le)
  then have last5: "last_n 5 ?history = drop (length stored - 4) stored @ [?m]"
    by (simp only: last_n_def)
  have "snd (snd (main e v mc (Some stored) log)) = snd (turn_response e v mc ?history log)"
    by (simp add: main_def Let_def m split: prod.splits sum.splits)
  then have prompts:
    "classification_prompts (drop (length log) (snd (snd (main e v mc (Some stored) log)))) =
       (case fst (history_summary_if_long e v ?history log) of
          Inl ex \<Rightarrow> []
        | Inr history_summary \<Rightarrow> [classification_prompt history_summary ?history mc])"
    by (simp only: turn_response_classification_prompts)
  have prompt: "classification_prompt history_summary ?history mc =
      \<lparr>role = lit ''system'',
        content = (if history_summary = [] then []
                   else classification_instructions
                        @ lit ''\<newline>Conversation history summary: '' @ history_summary)\<rparr>
      # drop (length stored - 4) stored @ [?m, ?m]" for history_summary
    unfolding classification_prompt_def last5 m
    by (simp add: with_summary_def system_msg_def)
  have first: "classification_prompts
        (drop (length log) (snd (snd (main e v mc (Some stored) log)))) =
     (if length stored < 10
      then [\<lparr>role = lit ''system'', content = []\<rparr>
            # drop (length stored - 4) stored @ [?m, ?m]]
      else case llm_reply e (length log) (summary_request v ?history) of
             Inl ex \<Rightarrow> []
           | Inr history_summary \<Rightarrow>
               [\<lparr>role = lit ''system'',
                 content = (if history_summary = [] then []
                            else classification_instructions
                                 @ lit ''\<newline>Conversation history summary: ''
                                 @ history_summary)\<rparr>
                # drop (length stored - 4) stored @ [?m, ?m]])"
  proof (cases "length stored < 10")
    case True
    then have "history_summary_if_long e v ?history log = (Inr [], log)"
      by (intro history_summary_short) simp
    then show ?thesis using True prompts prompt [of "[]"] by simp
  next
    case False
    then have "fst (history_summary_if_long e v ?history log)
                 = llm_reply e (length log) (summary_request v ?history)"
      by (subst history_summary_long) simp_all
    then show ?thesis using False prompts prompt
      by (cases "llm_reply e (length log) (summary_request v ?history)") simp_all
  qed
  show ?thesis
    using first slice by (intro conjI) (simp_all only: main_unset_history)
qed

text \<open>
  C9 at a stored history of six messages: the prompt is the system message, the last
  four stored messages, and the new message twice.
\<close>

theorem classification_prompt_repeats_message_witness:
  "classification_prompts
     (snd (snd (main (example_env (lit ''general'') (Get_raised [])) Chat (lit ''And now?'')
        (Some [\<lparr>role = lit ''user'', content = lit ''one''\<rparr>,
               \<lparr>role = lit ''assistant'', content = lit ''two''\<rparr>,
               \<lparr>role = lit ''user'', content = lit ''three''\<rparr>,
               \<lparr>role = lit ''assistant'', content = lit ''four''\<rparr>,
               \<lparr>role = lit ''user'', content = lit ''five''\<rparr>,
               \<lparr>role = lit ''assistant'', content = lit ''six''\<rparr>]) [])))
   = [[\<lparr>role = lit ''system'', content = []\<rparr>,
       \<lparr>role = lit ''user'', content = lit ''three''\<rparr>,
       \<lparr>role = lit ''assistant'', content = lit ''four''\<rparr>,
       \<lparr>role = lit ''user'', content = lit ''five''\<rparr>,
       \<lparr>role = lit ''assistant'', content = lit ''six''\<rparr>,
       \<lparr>role = lit ''user'', content = lit ''And now?''\<rparr>,
       \<lparr>role = lit ''user'', content = lit ''And now?''\<rparr>]]"
  using classification_prompt_repeats_message
    [where e = "example_env (lit ''general'') (Get_raised [])" and v = Chat
       and mc = "lit ''And now?''" and log = "[]"
       and stored = "[\<lparr>role = lit ''user'', content = lit ''one''\<rparr>,
               \<lparr>role = lit ''assistant'', content = lit ''two''\<rparr>,
               \<lparr>role = lit ''user'', content = lit ''three''\<rparr>,
               \<lparr>role = lit ''assistant'', content = lit ''four''\<rparr>,
               \<lparr>role = lit ''user'', content = lit ''five''\<rparr>,
               \<lparr>role = lit ''assistant'', content = lit ''six''\<rparr>]"]
  by simp

section \<open>The news fetcher (C3, C6)\<close>

text \<open>\<open>chat.py\<close>: the keyword search for cryptocurrency, the headlines for the rest.\<close>

lemma news_url_chat_endpoint:
  "prefix (lit ''https://newsapi.org/v2/everything?q='') (news_url_chat key category)
     = (category = lit ''cryptocurrency'')"
  "prefix (lit ''https://newsapi.org/v2/top-headlines?category='') (news_url_chat key category)
     = (category \<noteq> lit ''cryptocurrency'')"
  by (simp_all add: news_url_chat_def)

text \<open>\<open>chatbot/chatlit.py\<close>: the headlines for every category.\<close>

lemma news_url_chatlit_endpoint:
  "prefix (lit ''https://newsapi.org/v2/top-headlines?category='')
     (news_url_chatlit key category)"
  "\<not> prefix (lit ''https://newsapi.org/v2/everything?q='') (news_url_chatlit key category)"
  by (simp_all add: news_url_chatlit_def Let_def)

text \<open>
  C3 (code defect). The claim: the fetcher sends cryptocurrency, which is not in the
  provider's standard set, to the keyword search \<open>/v2/everything?q=...\<close> and every
  other category to \<open>/v2/top-headlines?category=...\<close>. \<open>chat.py\<close> does so
  (\<open>news_url_chat_endpoint\<close>). The fetcher of \<open>chatbot/chatlit.py\<close> at the category
  \<open>cryptocurrency\<close> requests the headlines endpoint.
\<close>

theorem chatlit_cryptocurrency_request:
  "get_real_news e Chatlit (lit ''cryptocurrency'') log =
     (Inr (fetch_result (http_reply e (length log)
        (lit ''https://newsapi.org/v2/top-headlines?category=cryptocurrency&apiKey=''
         @ news_api_key e @ lit ''&language=en''))),
      log @ [Requests_get
        (lit ''https://newsapi.org/v2/top-headlines?category=cryptocurrency&apiKey=''
         @ news_api_key e @ lit ''&language=en'')])"
  by (simp add: get_real_news_def news_url_chatlit_def category_mapping_def Let_def)

lemma str_int_401: "str_int 401 = lit ''401''"
  by (simp add: str_int_def)

text \<open>
  C6 as stated fails at a response with status 502 whose body is not JSON:
  \<open>response.json()\<close> raises inside the f-string, the \<open>except\<close> clause answers, and the
  string carries the text of that exception instead of \<open>HTTP 502 - <message>\<close>.
\<close>

theorem fetch_bad_gateway_counterexample:
  "fst (get_real_news
          (example_env []
             (Response 502 (Rejected (lit ''Expecting value: line 1 column 1 (char 0)''))))
          Chat (lit ''technology'') [])
     = Inr (lit ''Failed to fetch news: Expecting value: line 1 column 1 (char 0)'')
   \<and> \<not> prefix (lit ''Failed to fetch news: HTTP 502 - '')
         (lit ''Failed to fetch news: Expecting value: line 1 column 1 (char 0)'')"
  by (simp add: get_real_news_eq fetch_result_def)

text \<open>
  C6, amended. For every category and every provider behaviour the fetcher returns a
  string and never raises. On a status other than 200 whose body is a JSON object it
  returns \<open>Failed to fetch news: HTTP <code> - <message>\<close>, with \<open>Unknown error\<close> when
  the object has no message. On an exception inside the fetch, from the transport or
  from decoding the body, it returns \<open>Failed to fetch news: <exception text>\<close>. The
  news path hands whatever string the fetcher returned to the summarization, where it is
  the content of the user message that follows the system message.
\<close>

theorem fetch_failures_are_strings:
  "(\<exists>text. fst (get_real_news e v category log) = Inr text)
   \<and> (status_code \<noteq> 200 \<longrightarrow>
        fetch_result (Response status_code (Json_object msg arts)) =
          lit ''Failed to fetch news: HTTP '' @ str_int status_code @ lit '' - ''
          @ (case msg of None \<Rightarrow> lit ''Unknown error'' | Some m \<Rightarrow> m))
   \<and> fetch_result (Response status_code (Rejected err)) = lit ''Failed to fetch news: '' @ err
   \<and> fetch_result (Get_raised err) = lit ''Failed to fetch news: '' @ err
   \<and> news_path e v category history log =
        io_bind (summarize_with_llm e v
                   (fetch_result (http_reply e (length log) (news_url v (news_api_key e) category)))
                   category history)
          (\<lambda>summary. io_return (news_response category summary))
          (log @ [Requests_get (news_url v (news_api_key e) category)])
   \<and> news_prompt history_summary news_text category history ! 1 = user_msg news_text"
  by (simp add: get_real_news_eq fetch_result_def news_path_eq news_prompt_def)

text \<open>C6 at the status 401 that the provider sends for a bad API key.\<close>

theorem fetch_failures_are_strings_witness:
  "(401::int) \<noteq> 200
   \<and> fetch_result (Response 401 (Json_object (Some (lit ''Your API key is invalid.'')) None))
       = lit ''Failed to fetch news: HTTP 401 - Your API key is invalid.''"
  using fetch_failures_are_strings [where status_code = 401
          and msg = "Some (lit ''Your API key is invalid.'')" and arts = None
          and e = "example_env [] (Get_raised [])" and v = Chat and category = "[]"
          and log = "[]" and history = "[]" and err = "[]" and history_summary = "[]"
          and news_text = "[]"]
  by (simp add: str_int_401)

section \<open>History summaries and routing (C4, C5)\<close>

text \<open>
  C4. The history is the one the step sees, which in a turn already holds the incoming
  message. At a length of at most 10 the classification, the news summarization and the
  general answer each make their own completion call and nothing else, and the summary
  text in their prompt is the empty string. Above 10 each of them first makes the
  history-summary call, and whatever the step adds after it holds no further
  history-summary call: exactly one per step.
\<close>

theorem history_summary_call_count:
  "(length history \<le> 10 \<longrightarrow>
      snd (classify e v mc history log) =
        log @ [Llm Classify (request_of v Classify (classification_prompt [] history mc))]
    \<and> snd (summarize_with_llm e v news category history log) =
        log @ [Llm Summarize_news
                 (request_of v Summarize_news (news_prompt [] news category history))]
    \<and> snd (general_path e v history log) =
        log @ [Llm General_answer (request_of v General_answer (general_prompt [] history))])
   \<and> (length history > 10 \<longrightarrow>
      (\<exists>rest. snd (classify e v mc history log) =
                log @ Llm Summarize_history (summary_request v history) # rest
              \<and> summary_calls rest = 0)
    \<and> (\<exists>rest. snd (summarize_with_llm e v news category history log) =
                log @ Llm Summarize_history (summary_request v history) # rest
              \<and> summary_calls rest = 0)
    \<and> (\<exists>rest. snd (general_path e v history log) =
                log @ Llm Summarize_history (summary_request v history) # rest
              \<and> summary_calls rest = 0))"
proof (intro conjI impI)
  assume short: "length history \<le> 10"
  show "snd (classify e v mc history log) =
        log @ [Llm Classify (request_of v Classify (classification_prompt [] history mc))]"
    using short by (rule classify_short)
  show "snd (summarize_with_llm e v news category history log) =
        log @ [Llm Summarize_news
                 (request_of v Summarize_news (news_prompt [] news category history))]"
    using short by (rule summarize_with_llm_short)
  show "snd (general_path e v history log) =
        log @ [Llm General_answer (request_of v General_answer (general_prompt [] history))]"
    using short by (rule general_path_short)
next
  assume long: "length history > 10"
  show "\<exists>rest. snd (classify e v mc history log) =
                log @ Llm Summarize_history (summary_request v history) # rest
              \<and> summary_calls rest = 0"
    using long by (rule classify_long)
  show "\<exists>rest. snd (summarize_with_llm e v news category history log) =
                log @ Llm Summarize_history (summary_request v history) # rest
              \<and> summary_calls rest = 0"
    using long by (rule summarize_with_llm_long)
  show "\<exists>rest. snd (general_path e v history log) =
                log @ Llm Summarize_history (summary_request v history) # rest
              \<and> summary_calls rest = 0"
    using long by (rule general_path_long)
qed

text \<open>
  C4 at a history of one message, where the classification makes no summary call, and
  at a history of eleven messages, where it makes one.
\<close>

theorem history_summary_call_count_witness:
  "length [user_msg (lit ''Hi'')] \<le> 10
   \<and> summary_calls (snd (classify (example_env (lit ''general'') (Get_raised [])) Chat
                           (lit ''Hi'') [user_msg (lit ''Hi'')] [])) = 0
   \<and> length (replicate 11 (user_msg (lit ''Hi''))) > 10
   \<and> summary_calls (snd (classify (example_env (lit ''general'') (Get_raised [])) Chat
                           (lit ''Hi'') (replicate 11 (user_msg (lit ''Hi''))) [])) = 1"
proof -
  let ?e = "example_env (lit ''general'') (Get_raised [])"
  let ?long = "replicate 11 (user_msg (lit ''Hi''))"
  have short: "length [user_msg (lit ''Hi'')] \<le> 10" and long: "length ?long > 10"
    by simp_all
  have "snd (classify ?e Chat (lit ''Hi'') [user_msg (lit ''Hi'')] []) =
          [] @ [Llm Classify (request_of Chat Classify
                  (classification_prompt [] [user_msg (lit ''Hi'')] (lit ''Hi'')))]"
    using history_summary_call_count
      [where history = "[user_msg (lit ''Hi'')]" and log = "[]" and v = Chat and e = ?e
         and mc = "lit ''Hi''" and news = "[]" and category = "[]"] short
    by blast
  then have zero: "summary_calls (snd (classify ?e Chat (lit ''Hi'') [user_msg (lit ''Hi'')] [])) = 0"
    by simp
  obtain rest where
    "snd (classify ?e Chat (lit ''Hi'') ?long []) =
       [] @ Llm Summarize_history (summary_request Chat ?long) # rest"
    "summary_calls rest = 0"
    using history_summary_call_count
      [where history = ?long and log = "[]" and v = Chat and e = ?e
         and mc = "lit ''Hi''" and news = "[]" and category = "[]"] long
    by blast
  then have one: "summary_calls (snd (classify ?e Chat (lit ''Hi'') ?long [])) = 1"
    by simp
  show ?thesis using short long zero one by simp
qed

lemma classify_count:
  "summary_calls (snd (classify e v mc history log)) =
     summary_calls log + (if length history > 10 then 1 else 0)"
proof (cases "length history > 10")
  case True
  then obtain rest where
    "snd (classify e v mc history log) =
       log @ Llm Summarize_history (summary_request v history) # rest"
    "summary_calls rest = 0"
    using classify_long by blast
  then show ?thesis using True by simp
next
  case False
  then show ?thesis by (simp add: classify_short del: request_of.simps)
qed

lemma summarize_with_llm_count:
  "summary_calls (snd (summarize_with_llm e v news category history log)) =
     summary_calls log + (if length history > 10 then 1 else 0)"
proof (cases "length history > 10")
  case True
  then obtain rest where
    "snd (summarize_with_llm e v news category history log) =
       log @ Llm Summarize_history (summary_request v history) # rest"
    "summary_calls rest = 0"
    using summarize_with_llm_long by blast
  then show ?thesis using True by simp
next
  case False
  then show ?thesis by (simp add: summarize_with_llm_short del: request_of.simps)
qed

lemma general_path_count:
  "summary_calls (snd (general_path e v history log)) =
     summary_calls log + (if length history > 10 then 1 else 0)"
proof (cases "length history > 10")
  case True
  then obtain rest where
    "snd (general_path e v history log) =
       log @ Llm Summarize_history (summary_request v history) # rest"
    "summary_calls rest = 0"
    using general_path_long by blast
  then show ?thesis using True by simp
next
  case False
  then show ?thesis by (simp add: general_path_short del: request_of.simps)
qed

lemma news_path_count:
  "summary_calls (snd (news_path e v category history log)) =
     summary_calls log + (if length history > 10 then 1 else 0)"
  by (simp add: news_path_eq io_bind_return_snd summarize_with_llm_count)

text \<open>
  A whole turn: no history-summary call at a history of at most 10 messages; above 10,
  one before the classification and, when the classification returns, one more before
  the news summary or the general answer.
\<close>

lemma turn_response_count:
  "summary_calls (snd (turn_response e v mc history log)) =
     summary_calls log
     + (if length history \<le> 10 then 0
        else case fst (classify e v mc history log) of Inl ex \<Rightarrow> 1 | Inr topic \<Rightarrow> 2)"
proof (cases "classify e v mc history log")
  case (Pair r log1)
  then have log1: "summary_calls log1 = summary_calls log + (if length history > 10 then 1 else 0)"
    using classify_count [of e v mc history log] by simp
  show ?thesis
  proof (cases r)
    case (Inl ex)
    then show ?thesis using Pair log1 by (simp add: turn_response_def io_bind_def)
  next
    case (Inr topic)
    then show ?thesis using Pair log1
      by (cases "valid_categories topic")
         (simp_all add: turn_response_def io_bind_def news_path_count general_path_count)
  qed
qed

text \<open>
  C5. Let the classification call of a turn return \<open>out\<close>. The topic compared with the
  label set is \<open>out\<close> stripped and lower-cased; the turn takes the news path with the
  mapped category when the topic is exactly one of the four news labels, and the general
  path for every other topic.
\<close>

theorem classifier_output_routing:
  assumes "history_summary_if_long e v history log = (Inr history_summary, log0)"
    and "llm_reply e (length log0)
           (request_of v Classify (classification_prompt history_summary history mc)) = Inr out"
  shows "turn_response e v mc history log =
     (let topic = py_lower (py_strip out);
          log1 = log0 @ [Llm Classify
                   (request_of v Classify (classification_prompt history_summary history mc))]
      in if topic = lit ''news-tech'' then news_path e v (lit ''technology'') history log1
         else if topic = lit ''news-health'' then news_path e v (lit ''health'') history log1
         else if topic = lit ''news-business'' then news_path e v (lit ''business'') history log1
         else if topic = lit ''news-crypto''
              then news_path e v (lit ''cryptocurrency'') history log1
         else general_path e v history log1)"
  using assms
  by (simp add: turn_response_def classify_def io_bind_def complete_def io_return_def
      valid_categories_cases Let_def)

text \<open>
  C5 at the output \<open>News-Tech\<close> between spaces and a newline, which takes the news
  path, and at \<open>news-tech.\<close> with a full stop, which takes the general path.
\<close>

theorem classifier_output_routing_witness:
  "turn_response (example_env (lit ''  News-Tech \<newline>'') (Get_raised [])) Chat (lit ''Hi'')
     [user_msg (lit ''Hi'')] []
   = news_path (example_env (lit ''  News-Tech \<newline>'') (Get_raised [])) Chat
       (lit ''technology'') [user_msg (lit ''Hi'')]
       [Llm Classify (request_of Chat Classify
          (classification_prompt [] [user_msg (lit ''Hi'')] (lit ''Hi'')))]
   \<and> turn_response (example_env (lit ''news-tech.'') (Get_raised [])) Chat (lit ''Hi'')
     [user_msg (lit ''Hi'')] []
   = general_path (example_env (lit ''news-tech.'') (Get_raised [])) Chat
       [user_msg (lit ''Hi'')]
       [Llm Classify (request_of Chat Classify
          (classification_prompt [] [user_msg (lit ''Hi'')] (lit ''Hi'')))]"
  using classifier_output_routing
    [where e = "example_env (lit ''  News-Tech \<newline>'') (Get_raised [])" and v = Chat
       and history = "[user_msg (lit ''Hi'')]" and log = "[]" and history_summary = "[]"
       and log0 = "[]" and mc = "lit ''Hi''" and out = "lit ''  News-Tech \<newline>''"]
    classifier_output_routing
    [where e = "example_env (lit ''news-tech.'') (Get_raised [])" and v = Chat
       and history = "[user_msg (lit ''Hi'')]" and log = "[]" and history_summary = "[]"
       and log0 = "[]" and mc = "lit ''Hi''" and out = "lit ''news-tech.''"]
  by (simp add: history_summary_short py_lower_def py_strip_def py_isspace_def
      py_lower_cp_def Let_def del: request_of.simps)

section \<open>The two variants (C2)\<close>

text \<open>
  Where the completion provider answers a request of \<open>chat.py\<close> as it answers the
  request of \<open>chatbot/chatlit.py\<close> with the same prompt, every step that does not fetch
  news runs alike in both files.
\<close>

lemma io_bind_agree:
  assumes "\<And>log. m2 (map as_chatlit log) = (fst (m1 log), map as_chatlit (snd (m1 log)))"
    and "\<And>x log. f2 x (map as_chatlit log) = (fst (f1 x log), map as_chatlit (snd (f1 x log)))"
  shows "io_bind m2 f2 (map as_chatlit log)
           = (fst (io_bind m1 f1 log), map as_chatlit (snd (io_bind m1 f1 log)))"
  by (cases "m1 log") (simp add: io_bind_def assms split: sum.splits)

lemma io_return_agree:
  "io_return x (map as_chatlit log)
     = (fst (io_return x log), map as_chatlit (snd (io_return x log)))"
  by (simp add: io_return_def)

lemma complete_agree:
  assumes "\<And>k st p. llm_reply e k (request_of Chat st p) = llm_reply e k (request_of Chatlit st p)"
  shows "complete e Chatlit st prompt (map as_chatlit log)
           = (fst (complete e Chat st prompt log),
              map as_chatlit (snd (complete e Chat st prompt log)))"
  by (simp add: complete_def assms del: request_of.simps)

lemma history_summary_agree:
  assumes "\<And>k st p. llm_reply e k (request_of Chat st p) = llm_reply e k (request_of Chatlit st p)"
  shows "history_summary_if_long e Chatlit history (map as_chatlit log)
           = (fst (history_summary_if_long e Chat history log),
              map as_chatlit (snd (history_summary_if_long e Chat history log)))"
  by (simp add: history_summary_if_long_def summarize_history_def io_return_agree
      complete_agree [OF assms])

lemma classify_agree:
  assumes "\<And>k st p. llm_reply e k (request_of Chat st p) = llm_reply e k (request_of Chatlit st p)"
  shows "classify e Chatlit mc history (map as_chatlit log)
           = (fst (classify e Chat mc history log),
              map as_chatlit (snd (classify e Chat mc history log)))"
  unfolding classify_def
  by (intro io_bind_agree history_summary_agree complete_agree io_return_agree assms)

lemma summarize_with_llm_agree:
  assumes "\<And>k st p. llm_reply e k (request_of Chat st p) = llm_reply e k (request_of Chatlit st p)"
  shows "summarize_with_llm e Chatlit news category history (map as_chatlit log)
           = (fst (summarize_with_llm e Chat news category history log),
              map as_chatlit (snd (summarize_with_llm e Chat news category history log)))"
  unfolding summarize_with_llm_def
  by (intro io_bind_agree history_summary_agree complete_agree assms)

lemma general_path_agree:
  assumes "\<And>k st p. llm_reply e k (request_of Chat st p) = llm_reply e k (request_of Chatlit st p)"
  shows "general_path e Chatlit history (map as_chatlit log)
           = (fst (general_path e Chat history log),
              map as_chatlit (snd (general_path e Chat history log)))"
  unfolding general_path_def
  by (intro io_bind_agree history_summary_agree complete_agree assms)

text \<open>The two fetchers build the same URL for technology, health and business.\<close>

lemma news_url_agree:
  "category \<in> {lit ''technology'', lit ''health'', lit ''business''} \<Longrightarrow>
   news_url Chatlit key category = news_url Chat key category"
  by (auto simp add: news_url_chat_def news_url_chatlit_def category_mapping_def)

lemma get_real_news_agree:
  assumes "category \<in> {lit ''technology'', lit ''health'', lit ''business''}"
  shows "get_real_news e Chatlit category (map as_chatlit log)
           = (fst (get_real_news e Chat category log),
              map as_chatlit (snd (get_real_news e Chat category log)))"
  by (simp add: get_real_news_def Let_def news_url_agree [OF assms] del: news_url.simps)

lemma news_path_agree:
  assumes "\<And>k st p. llm_reply e k (request_of Chat st p) = llm_reply e k (request_of Chatlit st p)"
    and "category \<in> {lit ''technology'', lit ''health'', lit ''business''}"
  shows "news_path e Chatlit category history (map as_chatlit log)
           = (fst (news_path e Chat category history log),
              map as_chatlit (snd (news_path e Chat category history log)))"
  unfolding news_path_def
  by (intro io_bind_agree get_real_news_agree summarize_with_llm_agree io_return_agree assms)

lemma dispatch_agree:
  assumes "\<And>k st p. llm_reply e k (request_of Chat st p) = llm_reply e k (request_of Chatlit st p)"
    and "topic \<noteq> lit ''news-crypto''"
  shows "(case valid_categories topic of
            Some category \<Rightarrow> news_path e Chatlit category history
          | None \<Rightarrow> general_path e Chatlit history) (map as_chatlit log)
         = (fst ((case valid_categories topic of
                    Some category \<Rightarrow> news_path e Chat category history
                  | None \<Rightarrow> general_path e Chat history) log),
            map as_chatlit (snd ((case valid_categories topic of
                    Some category \<Rightarrow> news_path e Chat category history
                  | None \<Rightarrow> general_path e Chat history) log)))"
  using assms(2)
  by (simp add: valid_categories_cases news_path_agree [OF assms(1)]
      general_path_agree [OF assms(1)])

lemma turn_response_agree:
  assumes agree:
      "\<And>k st p. llm_reply e k (request_of Chat st p) = llm_reply e k (request_of Chatlit st p)"
    and label: "fst (classify e Chat mc history log) \<noteq> Inr (lit ''news-crypto'')"
  shows "turn_response e Chatlit mc history (map as_chatlit log)
           = (fst (turn_response e Chat mc history log),
              map as_chatlit (snd (turn_response e Chat mc history log)))"
proof (cases "classify e Chat mc history log")
  case (Pair r log1)
  have other: "classify e Chatlit mc history (map as_chatlit log) = (r, map as_chatlit log1)"
    using classify_agree [OF agree, of mc history log] Pair by simp
  show ?thesis
  proof (cases r)
    case (Inl ex)
    then show ?thesis using Pair other by (simp add: turn_response_def io_bind_def)
  next
    case (Inr topic)
    then have "topic \<noteq> lit ''news-crypto''" using label Pair by simp
    from dispatch_agree [OF agree this, of history log1]
    show ?thesis using Pair other Inr by (simp add: turn_response_def io_bind_def)
  qed
qed

text \<open>
  For every topic other than \<open>news-crypto\<close> the two variants give the same response,
  leave the same history and request the same URLs from the news provider.
\<close>

lemma variants_agree_unless_crypto:
  assumes agree:
      "\<And>k st p. llm_reply e k (request_of Chat st p) = llm_reply e k (request_of Chatlit st p)"
    and label:
      "fst (classify e Chat mc
              ((case chat_history of None \<Rightarrow> [] | Some h \<Rightarrow> h) @ [user_msg mc]) [])
         \<noteq> Inr (lit ''news-crypto'')"
  shows "fst (main e Chatlit mc chat_history []) = fst (main e Chat mc chat_history [])"
    and "fst (snd (main e Chatlit mc chat_history [])) = fst (snd (main e Chat mc chat_history []))"
    and "news_requests (snd (snd (main e Chatlit mc chat_history [])))
           = news_requests (snd (snd (main e Chat mc chat_history [])))"
  using turn_response_agree [OF agree label]
  by (simp_all add: main_def Let_def split: prod.splits sum.splits)

text \<open>
  C2 (code defect). The claim: with the same classifier label, provider responses and
  history, both variants issue the same news-provider request and give the same
  response. At the label \<open>news-crypto\<close>, on an empty history, \<open>chat.py\<close> requests the
  keyword search and \<open>chatbot/chatlit.py\<close> requests the headlines of the category
  \<open>cryptocurrency\<close>.
\<close>

theorem variants_differ_on_crypto:
  "news_requests
     (snd (snd (main (example_env (lit ''news-crypto'')
                        (Response 200 (Json_object None (Some [Some (lit ''Bitcoin rises'')]))))
                  Chat (lit ''Tell me the latest about crypto'') None [])))
   = [lit ''https://newsapi.org/v2/everything?q=cryptocurrency&apiKey=KEY&language=en&sortBy=publishedAt'']
   \<and> news_requests
     (snd (snd (main (example_env (lit ''news-crypto'')
                        (Response 200 (Json_object None (Some [Some (lit ''Bitcoin rises'')]))))
                  Chatlit (lit ''Tell me the latest about crypto'') None [])))
   = [lit ''https://newsapi.org/v2/top-headlines?category=cryptocurrency&apiKey=KEY&language=en'']"
  by (simp add: main_def turn_response_def classify_def io_bind_def io_return_def complete_def
       history_summary_if_long_def py_lower_def py_strip_def py_isspace_def py_lower_cp_def
       valid_categories_def news_path_def get_real_news_def summarize_with_llm_def
       news_url_chat_def news_url_chatlit_def category_mapping_def Let_def)

section \<open>The archive (C7, C8, C10)\<close>

lemma truthy_history_json: "truthy (history_json h) = (h \<noteq> [])"
  by (simp add: history_json_def)

lemma msg_json_inject: "(msg_json m = msg_json m') = (m = m')"
  by (cases m, cases m') (simp add: msg_json_def)

lemma history_json_inject: "(history_json h = history_json h') = (h = h')"
  by (simp add: history_json_def inj_on_def msg_json_inject)



lemma end_chat_falsy:
  "\<not> truthy (case chat_history of None \<Rightarrow> JNull | Some h \<Rightarrow> h) \<Longrightarrow>
   end_chat lib now chat_history disk = (None, disk, [])"
  by (simp add: end_chat_def Let_def)


lemma end_chat_write:
  "Write_file doc \<in> set (snd (snd (end_chat lib now chat_history disk))) \<Longrightarrow>
   \<exists>records h. chat_history = Some h \<and> truthy h
      \<and> doc = JArr (records @ [session_record now h])
      \<and> fst (load_all_history lib disk) = Inr (JArr records)"
  by (auto simp add: end_chat_def Let_def load_all_history_def save_all_history_def
      split: option.splits load_result.splits dump_result.splits json.splits if_splits)

text \<open>
  A file whose reading raises anything but \<open>JSONDecodeError\<close> makes \<open>end\<close> raise before
  it writes, and so does a stored document that is valid JSON but not a list; a last
  record without a session makes \<open>start\<close> raise.
\<close>

lemma end_chat_unreadable:
  "truthy h \<Longrightarrow> load_file lib stored = Load_raised ex \<Longrightarrow>
   end_chat lib now (Some h) (Some stored) = (Some ex, Some stored, [Path_exists, Read_file])"
  by (simp add: end_chat_def load_all_history_def)

lemma end_chat_not_a_list:
  "truthy h \<Longrightarrow> load_file lib stored = Loaded (JObj kvs) \<Longrightarrow>
   end_chat lib now (Some h) (Some stored)
     = (Some Attribute_error, Some stored, [Path_exists, Read_file])"
  by (simp add: end_chat_def load_all_history_def)

lemma start_record_without_session:
  "load_file lib stored = Loaded (JArr [JObj [(lit ''timestamp'', JStr (lit ''t''))]]) \<Longrightarrow>
   fst (start lib (Some stored)) = Inl Key_error"
  by (simp add: start_def)




lemma example_storage_simps:
  "load_file example_storage [255] = Load_raised Unicode_decode_error"
  "load_file example_storage archive_one = Loaded (JArr [first_session])"
  "load_file example_storage archive_two = Loaded (JArr [first_session, second_session])"
  "dump_file example_storage (JArr [first_session]) = Dumped archive_one"
  "dump_file example_storage (JArr [first_session, second_session]) = Dumped archive_two"
  by (simp_all add: example_storage_def archive_one_def archive_two_def)

text \<open>
  C7 as stated fails at an archive file that is not UTF-8 text, here the single byte
  0xFF: \<open>json.load\<close> raises \<open>UnicodeDecodeError\<close>, the handler catches only
  \<open>JSONDecodeError\<close>, and the exception escapes startup.
\<close>

theorem start_invalid_utf8_counterexample:
  "start example_storage (Some [255]) = (Inl Unicode_decode_error, [Path_exists, Read_file])"
  by (simp add: start_def example_storage_simps)

text \<open>
  C7, amended. For every archive file that \<open>json.load\<close> rejects with
  \<open>JSONDecodeError\<close>, the on-start handler stores the empty history and no exception
  escapes startup; it only tests that the file exists and reads it. A file whose reading
  raises any other exception lets that exception escape startup.
\<close>

theorem start_rejected_archive:
  "(load_file lib stored = Json_decode_error \<longrightarrow>
      start lib (Some stored) = (Inr (JArr []), [Path_exists, Read_file]))
   \<and> (load_file lib stored = Load_raised ex \<longrightarrow>
      start lib (Some stored) = (Inl ex, [Path_exists, Read_file]))"
  by (simp add: start_def)

text \<open>C7 at the file \<open>[1, 2\<close>, which is not JSON.\<close>

theorem start_rejected_archive_witness:
  "load_file example_storage (lit ''[1, 2'') = Json_decode_error
   \<and> start example_storage (Some (lit ''[1, 2'')) = (Inr (JArr []), [Path_exists, Read_file])"
  using start_rejected_archive [where lib = example_storage and stored = "lit ''[1, 2''"]
  by (simp add: example_storage_def archive_one_def archive_two_def)




text \<open>
  C10. When the session's history is unset or empty at chat end, the handler returns at
  once: it makes no file operation and the archive is as before. Whenever the handler
  does write, the document it writes ends with a record of the current session, and
  that session is not empty.
\<close>

theorem end_without_history:
  "(chat_history = None \<or> chat_history = Some (history_json []) \<longrightarrow>
      end_chat lib now chat_history disk = (None, disk, []))
   \<and> (\<forall>doc. Write_file doc \<in> set (snd (snd (end_chat lib now chat_history disk))) \<longrightarrow>
         (\<exists>records h. chat_history = Some h \<and> truthy h \<and> h \<noteq> history_json []
            \<and> doc = JArr (records @ [session_record now h])))"
proof (intro conjI impI allI)
  assume "chat_history = None \<or> chat_history = Some (history_json [])"
  then show "end_chat lib now chat_history disk = (None, disk, [])"
    by (auto simp add: end_chat_falsy history_json_def)
next
  fix doc
  assume "Write_file doc \<in> set (snd (snd (end_chat lib now chat_history disk)))"
  from end_chat_write [OF this]
  show "\<exists>records h. chat_history = Some h \<and> truthy h \<and> h \<noteq> history_json []
            \<and> doc = JArr (records @ [session_record now h])"
    by (auto simp add: history_json_def)
qed

text \<open>C10 at an unset history and at an empty one, with an archive on disk.\<close>

theorem end_without_history_witness:
  "end_chat example_storage (lit ''2026-01-01 10:00:00'') None (Some archive_one)
     = (None, Some archive_one, [])
   \<and> end_chat example_storage (lit ''2026-01-01 10:00:00'') (Some (history_json []))
       (Some archive_one)
     = (None, Some archive_one, [])"
  using end_without_history [where chat_history = None and now = "lit ''2026-01-01 10:00:00''"
          and disk = "Some archive_one" and lib = example_storage]
    end_without_history [where chat_history = "Some (history_json [])"
          and now = "lit ''2026-01-01 10:00:00''" and disk = "Some archive_one"
          and lib = example_storage]
  by simp

end
